theory Spec2Isabelle
  imports Complex_Main
begin

section \<open>Values shared by the plugin and the crowd\<close>

text \<open>
  A shallow embedding of \<^verbatim>\<open>RecastNavigationJSPlugin.ts\<close>: the plugin class
  \<^verbatim>\<open>RecastNavigationJSPlugin\<close> and the crowd class \<^verbatim>\<open>RecastJSCrowd\<close>.

  JavaScript numbers are modelled as \<^typ>\<open>real\<close>, without NaN and infinities. The two
  divisions of the tick round their result as double arithmetic does: that rounded
  division is a parameter, \<open>fdiv\<close>, of the functions that divide.
  Objects that the source only holds by reference (navigation meshes, tile caches,
  obstacles, transform nodes) are identities of type \<^typ>\<open>nat\<close>.
  The native recast library and the Babylon constant \<^verbatim>\<open>Epsilon\<close> are not part of
  the source file: they are parameters of the functions that use them.
\<close>

record Vector3 =
  vx :: real
  vy :: real
  vz :: real

datatype error = Error string | TypeError

text \<open>
  A method either returns a value or throws. In both cases the fields it has already
  assigned stay assigned, so both constructors carry the state reached.
\<close>

datatype ('v, 's) outcome = Returned 'v 's | Threw error 's

fun state_of :: "('v, 's) outcome \<Rightarrow> 's" where
  "state_of (Returned v s) = s"
| "state_of (Threw e s) = s"

fun threw :: "('v, 's) outcome \<Rightarrow> bool" where
  "threw (Returned v s) = False"
| "threw (Threw e s) = True"

type_synonym navmesh_ref = nat
type_synonym tilecache_ref = nat
type_synonym node_ref = nat
type_synonym obstacle = nat

section \<open>The plugin\<close>

record NavMeshQuery =
  queryNavMesh :: navmesh_ref
  defaultQueryHalfExtents :: Vector3

text \<open>\<^verbatim>\<open>new NavMeshQuery(navMesh)\<close>; the extent starts at the documented default (1,1,1).\<close>

definition newNavMeshQuery :: "navmesh_ref \<Rightarrow> NavMeshQuery" where
  "newNavMeshQuery navMesh =
     \<lparr>queryNavMesh = navMesh, defaultQueryHalfExtents = \<lparr>vx = 1, vy = 1, vz = 1\<rparr>\<rparr>"

text \<open>
  A source mesh, seen through the two accessors \<^verbatim>\<open>createNavMesh\<close> calls:
  \<^verbatim>\<open>getVerticesData(PositionKind, false, false)\<close> and \<^verbatim>\<open>getIndices()\<close>, both nullable.
\<close>

record Mesh =
  verticesData :: "real list option"
  meshIndices :: "real list option"

text \<open>
  A \<^verbatim>\<open>Float32Array\<close>. Once its buffer has been transferred to a worker the array is
  detached: it has no elements any more, and native code that is handed it throws a
  TypeError.
\<close>

datatype typed_array = Float32Array "real list" | Detached

record worker_message =
  msgPositions :: "real list"
  msgIndices :: "real list"
  msgCs :: real
  msgCh :: real

record plugin =
  navMesh :: "navmesh_ref option"
  navMeshQuery :: "NavMeshQuery option"
  maximumSubStepCount :: real
  timeStep :: real
  timeFactor :: real
  tempVec1 :: Vector3
  tempVec2 :: Vector3
  tileCache :: "tilecache_ref option"
  worker :: bool
  positions :: typed_array
  indices :: typed_array
  posted :: "worker_message list"

text \<open>
  The field initialisers and the constructor. \<^verbatim>\<open>navMesh\<close> and \<^verbatim>\<open>_navMeshQuery\<close> are
  declared without a value; \<^verbatim>\<open>posted\<close> records the messages sent to the worker.
\<close>

definition newPlugin :: plugin where
  "newPlugin =
     \<lparr>navMesh = None, navMeshQuery = None, maximumSubStepCount = 10, timeStep = 1 / 60,
      timeFactor = 1, tempVec1 = \<lparr>vx = 0, vy = 0, vz = 0\<rparr>,
      tempVec2 = \<lparr>vx = 0, vy = 0, vz = 0\<rparr>, tileCache = None, worker = False,
      positions = Float32Array [], indices = Float32Array [], posted = []\<rparr>"

definition setTimeStep :: "real \<Rightarrow> plugin \<Rightarrow> plugin" where
  "setTimeStep newTimeStep p = p\<lparr>timeStep := newTimeStep\<rparr>"

definition getTimeStep :: "plugin \<Rightarrow> real" where
  "getTimeStep p = timeStep p"

definition setMaximumSubStepCount :: "real \<Rightarrow> plugin \<Rightarrow> plugin" where
  "setMaximumSubStepCount newStepCount p = p\<lparr>maximumSubStepCount := newStepCount\<rparr>"

definition getMaximumSubStepCount :: "plugin \<Rightarrow> real" where
  "getMaximumSubStepCount p = maximumSubStepCount p"

definition setTimeFactor :: "real \<Rightarrow> plugin \<Rightarrow> plugin" where
  "setTimeFactor v p = p\<lparr>timeFactor := max v 0\<rparr>"

subsection \<open>Building the navigation mesh\<close>

text \<open>
  \<^verbatim>\<open>Float32Array.from(a ?? [])\<close>: a missing array counts as empty and every element is
  rounded to single precision by \<open>fround\<close>, a parameter.
\<close>

definition Float32Array_from :: "(real \<Rightarrow> real) \<Rightarrow> real list option \<Rightarrow> real list" where
  "Float32Array_from fround a = (case a of None \<Rightarrow> [] | Some xs \<Rightarrow> map fround xs)"

text \<open>
  \<^verbatim>\<open>createNavMesh(meshes, parameters, completion)\<close>. The argument \<open>completion\<close> says
  whether a callback was passed; \<open>generateSoloNavMesh\<close> is the native generator and
  returns the pair \<^verbatim>\<open>{success, navMesh}\<close>. \<^verbatim>\<open>parameters\<close> is never read.
  The two warnings only log. The test \<^verbatim>\<open>!positions || !indices\<close> of the blocking
  branch is on two typed arrays, which are never falsy, so it never throws.
  Posting to the worker transfers both buffers: the arrays the plugin keeps in
  \<^verbatim>\<open>_positions\<close> and \<^verbatim>\<open>_indices\<close> are the posted ones and are left detached.
\<close>

definition createNavMesh ::
  "(real \<Rightarrow> real) \<Rightarrow> (real list \<Rightarrow> real list \<Rightarrow> bool \<times> navmesh_ref) \<Rightarrow>
   Mesh list \<Rightarrow> bool \<Rightarrow> plugin \<Rightarrow> (unit, plugin) outcome" where
  "createNavMesh fround generateSoloNavMesh meshes completion p =
     (case meshes of
        [] \<Rightarrow> Threw (Error ''At least one mesh is needed to create the nav mesh.'') p
      | mesh0 # others \<Rightarrow>
          let positions0 = Float32Array_from fround (verticesData mesh0);
              indices0 = Float32Array_from fround (meshIndices mesh0);
              p1 = p\<lparr>positions := Float32Array positions0, indices := Float32Array indices0\<rparr>
          in if worker p1 \<and> completion
             then Returned ()
                    (p1\<lparr>posted := posted p1 @
                           [\<lparr>msgPositions = positions0, msgIndices = indices0,
                             msgCs = 0.05, msgCh = 0.2\<rparr>],
                        positions := Detached, indices := Detached\<rparr>)
             else (case generateSoloNavMesh positions0 indices0 of
                     (success, navMesh0) \<Rightarrow>
                       if \<not> success then Threw (Error ''Unable to generateSoloNavMesh'') p1
                       else Returned ()
                              (p1\<lparr>navMesh := Some navMesh0,
                                  navMeshQuery := Some (newNavMeshQuery navMesh0)\<rparr>)))"

text \<open>\<^verbatim>\<open>buildFromNavmeshData(data)\<close>; \<open>importNavMesh\<close> is the native importer.\<close>

definition buildFromNavmeshData :: "(nat list \<Rightarrow> navmesh_ref) \<Rightarrow> nat list \<Rightarrow> plugin \<Rightarrow> plugin" where
  "buildFromNavmeshData importNavMesh data p = p\<lparr>navMesh := Some (importNavMesh data)\<rparr>"

text \<open>
  The \<^verbatim>\<open>onmessage\<close> handler installed by the worker branch: import the reply, call the
  completion callback (not modelled), bind a new query to the imported mesh.
\<close>

definition workerOnMessage :: "(nat list \<Rightarrow> navmesh_ref) \<Rightarrow> nat list \<Rightarrow> plugin \<Rightarrow> plugin" where
  "workerOnMessage importNavMesh data p =
     (let p1 = buildFromNavmeshData importNavMesh data p
      in p1\<lparr>navMeshQuery := map_option newNavMeshQuery (navMesh p1)\<rparr>)"

subsection \<open>Path queries\<close>

text \<open>The native path object: \<^verbatim>\<open>getPointCount()\<close> and \<^verbatim>\<open>getPoint(pt)\<close>.\<close>

record navPath =
  pointCount :: nat
  getPoint :: "nat \<Rightarrow> Vector3"

definition convertNavPathPoints :: "navPath \<Rightarrow> Vector3 list" where
  "convertNavPathPoints path = map (getPoint path) [0..<pointCount path]"

text \<open>
  \<^verbatim>\<open>computePath\<close> and \<^verbatim>\<open>computePathSmooth\<close>. \<open>queryComputePath\<close> is the native
  \<^verbatim>\<open>NavMeshQuery.computePath\<close>. Both methods first copy their arguments into the two
  scratch vectors; calling a method of a query that was never created is a TypeError.
\<close>

definition computePath ::
  "(NavMeshQuery \<Rightarrow> Vector3 \<Rightarrow> Vector3 \<Rightarrow> navPath) \<Rightarrow> Vector3 \<Rightarrow> Vector3 \<Rightarrow> plugin \<Rightarrow>
   (Vector3 list, plugin) outcome" where
  "computePath queryComputePath start end p =
     (let p1 = p\<lparr>tempVec1 := \<lparr>vx = vx start, vy = vy start, vz = vz start\<rparr>,
                 tempVec2 := \<lparr>vx = vx end, vy = vy end, vz = vz end\<rparr>\<rparr>
      in case navMeshQuery p1 of
           None \<Rightarrow> Threw TypeError p1
         | Some q \<Rightarrow>
             let path = queryComputePath q (tempVec1 p1) (tempVec2 p1)
             in Returned (convertNavPathPoints path) p1)"

definition computePathSmooth ::
  "(NavMeshQuery \<Rightarrow> Vector3 \<Rightarrow> Vector3 \<Rightarrow> navPath) \<Rightarrow> Vector3 \<Rightarrow> Vector3 \<Rightarrow> plugin \<Rightarrow>
   (Vector3 list, plugin) outcome" where
  "computePathSmooth queryComputePath start end p =
     (let p1 = p\<lparr>tempVec1 := \<lparr>vx = vx start, vy = vy start, vz = vz start\<rparr>,
                 tempVec2 := \<lparr>vx = vx end, vy = vy end, vz = vz end\<rparr>\<rparr>
      in case navMeshQuery p1 of
           None \<Rightarrow> Threw TypeError p1
         | Some q \<Rightarrow>
             let path = queryComputePath q (tempVec1 p1) (tempVec2 p1)
             in Returned (convertNavPathPoints path) p1)"

subsection \<open>Obstacles and the tile cache\<close>

text \<open>
  \<^verbatim>\<open>_createTileCache()\<close>. \<open>generateTileCache\<close> is the native generator, called with the
  retained geometry and the fixed tile size; it returns \<^verbatim>\<open>{success, navMesh, tileCache}\<close>.
  A failure is logged and nothing is assigned. On retained arrays that a worker build
  has left detached the generator throws, and so does the method.
\<close>

definition createTileCache ::
  "(real list \<Rightarrow> real list \<Rightarrow> bool \<times> navmesh_ref \<times> tilecache_ref) \<Rightarrow> plugin \<Rightarrow>
   (unit, plugin) outcome" where
  "createTileCache generateTileCache p =
     (case tileCache p of
        Some tc \<Rightarrow> Returned () p
      | None \<Rightarrow>
          (case (positions p, indices p) of
             (Float32Array positions0, Float32Array indices0) \<Rightarrow>
               (case generateTileCache positions0 indices0 of
                  (success, navMesh0, tileCache0) \<Rightarrow>
                    if \<not> success then Returned () p
                    else Returned () (p\<lparr>tileCache := Some tileCache0, navMesh := Some navMesh0\<rparr>))
           | (Float32Array positions0, Detached) \<Rightarrow> Threw TypeError p
           | (Detached, indices0) \<Rightarrow> Threw TypeError p))"

text \<open>
  \<^verbatim>\<open>addCylinderObstacle\<close>, \<^verbatim>\<open>addBoxObstacle\<close>, \<^verbatim>\<open>removeObstacle\<close>. The native tile
  cache methods are parameters; without a tile cache the result is \<^verbatim>\<open>null\<close>.
\<close>

definition addCylinderObstacle ::
  "(real list \<Rightarrow> real list \<Rightarrow> bool \<times> navmesh_ref \<times> tilecache_ref) \<Rightarrow>
   (tilecache_ref \<Rightarrow> Vector3 \<Rightarrow> real \<Rightarrow> real \<Rightarrow> obstacle option) \<Rightarrow>
   Vector3 \<Rightarrow> real \<Rightarrow> real \<Rightarrow> plugin \<Rightarrow> (obstacle option, plugin) outcome" where
  "addCylinderObstacle generateTileCache tcAddCylinder position radius height p =
     (case createTileCache generateTileCache p of
        Threw e p1 \<Rightarrow> Threw e p1
      | Returned u p1 \<Rightarrow>
          (let p2 = p1\<lparr>tempVec1 := \<lparr>vx = vx position, vy = vy position, vz = vz position\<rparr>\<rparr>
           in Returned
                (case tileCache p2 of
                   None \<Rightarrow> None
                 | Some tc \<Rightarrow> tcAddCylinder tc (tempVec1 p2) radius height)
                p2))"

definition addBoxObstacle ::
  "(real list \<Rightarrow> real list \<Rightarrow> bool \<times> navmesh_ref \<times> tilecache_ref) \<Rightarrow>
   (tilecache_ref \<Rightarrow> Vector3 \<Rightarrow> Vector3 \<Rightarrow> real \<Rightarrow> obstacle option) \<Rightarrow>
   Vector3 \<Rightarrow> Vector3 \<Rightarrow> real \<Rightarrow> plugin \<Rightarrow> (obstacle option, plugin) outcome" where
  "addBoxObstacle generateTileCache tcAddBox position extent angle p =
     (case createTileCache generateTileCache p of
        Threw e p1 \<Rightarrow> Threw e p1
      | Returned u p1 \<Rightarrow>
          (let p2 = p1\<lparr>tempVec1 := \<lparr>vx = vx position, vy = vy position, vz = vz position\<rparr>\<rparr>;
               p3 = p2\<lparr>tempVec2 := \<lparr>vx = vx extent, vy = vy extent, vz = vz extent\<rparr>\<rparr>
           in Returned
                (case tileCache p3 of
                   None \<Rightarrow> None
                 | Some tc \<Rightarrow> tcAddBox tc (tempVec1 p3) (tempVec2 p3) angle)
                p3))"

text \<open>Removal happens inside the native tile cache; no field of the plugin is assigned.\<close>

definition removeObstacle :: "obstacle \<Rightarrow> plugin \<Rightarrow> plugin" where
  "removeObstacle ob p = p"

text \<open>
  The methods that assign \<^verbatim>\<open>navMesh\<close> or \<^verbatim>\<open>_tileCache\<close>, as one step function over
  the native library \<open>lib\<close>. The remaining methods of the class assign neither field.
\<close>

record recast =
  libFround :: "real \<Rightarrow> real"
  libGenerateSoloNavMesh :: "real list \<Rightarrow> real list \<Rightarrow> bool \<times> navmesh_ref"
  libGenerateTileCache :: "real list \<Rightarrow> real list \<Rightarrow> bool \<times> navmesh_ref \<times> tilecache_ref"
  libImportNavMesh :: "nat list \<Rightarrow> navmesh_ref"
  libAddCylinder :: "tilecache_ref \<Rightarrow> Vector3 \<Rightarrow> real \<Rightarrow> real \<Rightarrow> obstacle option"
  libAddBox :: "tilecache_ref \<Rightarrow> Vector3 \<Rightarrow> Vector3 \<Rightarrow> real \<Rightarrow> obstacle option"

datatype plugin_call =
    CreateNavMesh "Mesh list" bool
  | WorkerOnMessage "nat list"
  | BuildFromNavmeshData "nat list"
  | AddCylinderObstacle Vector3 real real
  | AddBoxObstacle Vector3 Vector3 real
  | RemoveObstacle obstacle

fun pluginStep :: "recast \<Rightarrow> plugin_call \<Rightarrow> plugin \<Rightarrow> plugin" where
  "pluginStep lib (CreateNavMesh meshes completion) p =
     state_of (createNavMesh (libFround lib) (libGenerateSoloNavMesh lib) meshes completion p)"
| "pluginStep lib (WorkerOnMessage data) p = workerOnMessage (libImportNavMesh lib) data p"
| "pluginStep lib (BuildFromNavmeshData data) p =
     buildFromNavmeshData (libImportNavMesh lib) data p"
| "pluginStep lib (AddCylinderObstacle position radius height) p =
     state_of (addCylinderObstacle (libGenerateTileCache lib) (libAddCylinder lib)
                 position radius height p)"
| "pluginStep lib (AddBoxObstacle position extent angle) p =
     state_of (addBoxObstacle (libGenerateTileCache lib) (libAddBox lib)
                 position extent angle p)"
| "pluginStep lib (RemoveObstacle ob) p = removeObstacle ob p"

fun pluginRun :: "recast \<Rightarrow> plugin_call list \<Rightarrow> plugin \<Rightarrow> plugin" where
  "pluginRun lib [] p = p"
| "pluginRun lib (call # calls) p = pluginRun lib calls (pluginStep lib call p)"

fun isObstacleCall :: "plugin_call \<Rightarrow> bool" where
  "isObstacleCall (AddCylinderObstacle position radius height) = True"
| "isObstacleCall (AddBoxObstacle position extent angle) = True"
| "isObstacleCall (RemoveObstacle ob) = True"
| "isObstacleCall call = False"

fun isAddObstacleCall :: "plugin_call \<Rightarrow> bool" where
  "isAddObstacleCall (AddCylinderObstacle position radius height) = True"
| "isAddObstacleCall (AddBoxObstacle position extent angle) = True"
| "isAddObstacleCall call = False"

section \<open>The crowd\<close>

record reach_event =
  agentIndex :: int
  destination :: Vector3

text \<open>
  The five per-agent arrays of \<^verbatim>\<open>RecastJSCrowd\<close>, followed by what the crowd does to
  the outside: \<open>nodePosition\<close> is the \<^verbatim>\<open>position\<close> field of each transform node,
  \<open>notified\<close> the arguments of \<^verbatim>\<open>onReachTargetObservable.notifyObservers\<close> and
  \<open>crowdUpdates\<close> the arguments of \<^verbatim>\<open>recastCrowd.update\<close>, both in call order.
  A notification is recorded with the coordinates its destination has when it is sent.
  Observers are taken not to call back into the crowd.
\<close>

record crowd =
  transforms :: "node_ref list"
  agents :: "int list"
  reachRadii :: "real list"
  agentDestinationArmed :: "bool list"
  agentDestination :: "Vector3 list"
  nodePosition :: "node_ref \<Rightarrow> Vector3"
  notified :: "reach_event list"
  crowdUpdates :: "real list"

definition newCrowd :: "(node_ref \<Rightarrow> Vector3) \<Rightarrow> crowd" where
  "newCrowd scene =
     \<lparr>transforms = [], agents = [], reachRadii = [], agentDestinationArmed = [],
      agentDestination = [], nodePosition = scene, notified = [], crowdUpdates = []\<rparr>"

subsection \<open>JavaScript arrays\<close>

text \<open>\<^verbatim>\<open>a[i]\<close> is \<^verbatim>\<open>undefined\<close> past the end.\<close>

definition nth_opt :: "'a list \<Rightarrow> nat \<Rightarrow> 'a option" where
  "nth_opt xs i = (if i < length xs then Some (xs ! i) else None)"

text \<open>\<^verbatim>\<open>a.indexOf(v)\<close>: the first position holding \<open>v\<close>, or -1.\<close>

fun indexOf :: "'a list \<Rightarrow> 'a \<Rightarrow> int" where
  "indexOf [] v = - 1"
| "indexOf (y # ys) v =
     (if y = v then 0
      else (let r = indexOf ys v in if r = - 1 then - 1 else r + 1))"

text \<open>\<^verbatim>\<open>a.splice(item, 1)\<close>: past the end nothing is removed.\<close>

definition splice1 :: "nat \<Rightarrow> 'a list \<Rightarrow> 'a list" where
  "splice1 item xs = take item xs @ drop (Suc item) xs"

text \<open>
  \<^verbatim>\<open>a[i] = v\<close>: past the end the array grows, and the slots in between are holes,
  which read as \<open>hole\<close>.
\<close>

definition js_set :: "'a \<Rightarrow> nat \<Rightarrow> 'a \<Rightarrow> 'a list \<Rightarrow> 'a list" where
  "js_set hole i v xs =
     (if i < length xs then xs[i := v] else xs @ replicate (i - length xs) hole @ [v])"

subsection \<open>Agents\<close>

record IAgentParameters =
  radius :: real
  height :: real
  maxAcceleration :: real
  maxSpeed :: real
  collisionQueryRange :: real
  pathOptimizationRange :: real
  separationWeight :: real
  reachRadius :: "real option"

text \<open>
  The parameter object \<^verbatim>\<open>addAgent\<close> hands to the native crowd: a missing or zero
  \<^verbatim>\<open>reachRadius\<close> becomes the radius.
\<close>

definition agentParams :: "IAgentParameters \<Rightarrow> IAgentParameters" where
  "agentParams parameters =
     parameters\<lparr>reachRadius :=
       Some (case reachRadius parameters of
               None \<Rightarrow> radius parameters
             | Some r \<Rightarrow> if r = 0 then radius parameters else r)\<rparr>"

text \<open>
  \<^verbatim>\<open>addAgent(pos, parameters, transform)\<close>. \<open>newIndex\<close> is the \<^verbatim>\<open>agentIndex\<close> of the
  agent the native crowd creates. The push onto \<^verbatim>\<open>reachRadii\<close> is commented out in
  the source, so that array is not touched.
\<close>

definition addAgent :: "int \<Rightarrow> Vector3 \<Rightarrow> IAgentParameters \<Rightarrow> node_ref \<Rightarrow> crowd \<Rightarrow> int \<times> crowd" where
  "addAgent newIndex pos parameters transform c =
     (newIndex,
      c\<lparr>transforms := transforms c @ [transform],
        agents := agents c @ [newIndex],
        agentDestinationArmed := agentDestinationArmed c @ [False],
        agentDestination := agentDestination c @ [\<lparr>vx = 0, vy = 0, vz = 0\<rparr>]\<rparr>)"

text \<open>\<^verbatim>\<open>removeAgent(index)\<close>.\<close>

definition removeAgent :: "int \<Rightarrow> crowd \<Rightarrow> crowd" where
  "removeAgent index c =
     (let item = indexOf (agents c) index
      in if item > - 1
         then c\<lparr>agents := splice1 (nat item) (agents c),
                transforms := splice1 (nat item) (transforms c),
                reachRadii := splice1 (nat item) (reachRadii c),
                agentDestinationArmed := splice1 (nat item) (agentDestinationArmed c),
                agentDestination := splice1 (nat item) (agentDestination c)\<rparr>
         else c)"

text \<open>
  \<^verbatim>\<open>agentGoto(index, destination)\<close>. A hole of the flag array reads as falsy;
  \<^verbatim>\<open>_agentDestination[item].set\<close> on a missing element is a TypeError, raised after the
  flag has been set.
\<close>

definition agentGoto :: "int \<Rightarrow> Vector3 \<Rightarrow> crowd \<Rightarrow> (unit, crowd) outcome" where
  "agentGoto index dest c =
     (let item = indexOf (agents c) index
      in if item > - 1
         then (let c1 = c\<lparr>agentDestinationArmed :=
                            js_set False (nat item) True (agentDestinationArmed c)\<rparr>
               in if nat item < length (agentDestination c1)
                  then Returned ()
                         (c1\<lparr>agentDestination :=
                               (agentDestination c1)
                                 [nat item := \<lparr>vx = vx dest, vy = vy dest, vz = vz dest\<rparr>]\<rparr>)
                  else Threw TypeError c1)
         else Returned () c)"

text \<open>
  \<^verbatim>\<open>getAgentPosition(index)\<close>. \<open>sim\<close> is \<^verbatim>\<open>recastCrowd.getAgent(index)?.position()\<close>,
  the native position of an agent, if the native crowd has that agent.
\<close>

definition getAgentPosition :: "(int \<Rightarrow> Vector3 option) \<Rightarrow> int \<Rightarrow> Vector3" where
  "getAgentPosition sim index =
     (case sim index of
        Some agentPos \<Rightarrow> \<lparr>vx = vx agentPos, vy = vy agentPos, vz = vz agentPos\<rparr>
      | None \<Rightarrow> \<lparr>vx = 0, vy = 0, vz = 0\<rparr>)"

subsection \<open>The tick\<close>

text \<open>
  The stepping block of \<^verbatim>\<open>update\<close> (the lines under the comment \<^verbatim>\<open>update crowd\<close>):
  the list of arguments it passes to \<^verbatim>\<open>recastCrowd.update\<close>. \<open>fdiv\<close> is the division of
  doubles. \<^verbatim>\<open>Math.floor\<close> and the comparisons are exact. The maximum step count is any
  number: when it is not whole, the loop \<^verbatim>\<open>for (i = 0; i < iterationCount; i++)\<close> runs
  once for every natural number below it. The loop counter is a double as well; counts
  are taken below \<open>2^53\<close>, where its increments are exact. The division by the time
  step is only reached with \<open>timeStep > eps\<close>; for \<open>eps \<ge> 0\<close> the divisor is positive.
\<close>

definition crowdSteps ::
  "(real \<Rightarrow> real \<Rightarrow> real) \<Rightarrow> real \<Rightarrow> real \<Rightarrow> real \<Rightarrow> real \<Rightarrow> real list" where
  "crowdSteps fdiv eps timeStep0 maxStepCount deltaTime =
     (if timeStep0 \<le> eps then [deltaTime]
      else (let iterationCount0 = real_of_int \<lfloor>fdiv deltaTime timeStep0\<rfloor>;
                iterationCount1 =
                  (if maxStepCount \<noteq> 0 \<and> iterationCount0 > maxStepCount
                   then maxStepCount else iterationCount0);
                iterationCount = (if iterationCount1 < 1 then 1 else iterationCount1);
                step = fdiv deltaTime iterationCount
            in replicate (nat \<lceil>iterationCount\<rceil>) step))"

text \<open>
  The arrival test of the loop body. The radius is \<^verbatim>\<open>reachRadii[index]\<close>; when that
  is \<^verbatim>\<open>undefined\<close> every bound is NaN and all three comparisons are false.
\<close>

definition reached :: "Vector3 \<Rightarrow> Vector3 \<Rightarrow> real option \<Rightarrow> bool" where
  "reached agentPosition dest radiusOpt =
     (case radiusOpt of
        None \<Rightarrow> False
      | Some radius0 \<Rightarrow>
          (let dx = vx agentPosition - vx dest;
               dz = vz agentPosition - vz dest;
               groundY = vy dest - radius0;
               ceilingY = vy dest + radius0;
               distanceXZSquared = dx * dx + dz * dz
           in vy agentPosition > groundY \<and> vy agentPosition < ceilingY \<and>
              distanceXZSquared < radius0 * radius0))"

text \<open>
  One pass of the loop \<^verbatim>\<open>for (index = 0; index < this.agents.length; index++)\<close>,
  which only runs with \<open>index\<close> below the length of \<^verbatim>\<open>agents\<close>.
  Writing the position of a missing transform, or reading the coordinates of a missing
  destination, is a TypeError; a missing flag is falsy.
\<close>

definition updateAgent :: "(int \<Rightarrow> Vector3 option) \<Rightarrow> nat \<Rightarrow> crowd \<Rightarrow> (unit, crowd) outcome" where
  "updateAgent sim index c =
     (let agentIndex0 = agents c ! index;
          agentPosition = getAgentPosition sim agentIndex0
      in if length (transforms c) \<le> index then Threw TypeError c
         else (let c1 = c\<lparr>nodePosition :=
                            (nodePosition c)(transforms c ! index := agentPosition)\<rparr>
               in if nth_opt (agentDestinationArmed c1) index = Some True
                  then (if length (agentDestination c1) \<le> index then Threw TypeError c1
                        else (let dest = agentDestination c1 ! index
                              in if reached agentPosition dest (nth_opt (reachRadii c1) index)
                                 then Returned ()
                                        (c1\<lparr>agentDestinationArmed :=
                                              (agentDestinationArmed c1)[index := False],
                                            notified := notified c1 @
                                              [\<lparr>agentIndex = agentIndex0, destination = dest\<rparr>]\<rparr>)
                                 else Returned () c1))
                  else Returned () c1))"

fun updateAgents :: "(int \<Rightarrow> Vector3 option) \<Rightarrow> nat list \<Rightarrow> crowd \<Rightarrow> (unit, crowd) outcome" where
  "updateAgents sim [] c = Returned () c"
| "updateAgents sim (index # rest) c =
     (case updateAgent sim index c of
        Returned u c' \<Rightarrow> updateAgents sim rest c'
      | Threw e c' \<Rightarrow> Threw e c')"

text \<open>
  \<^verbatim>\<open>update(deltaTime)\<close>. \<open>fdiv\<close> is the division of doubles, \<open>eps\<close> is Babylon's
  \<^verbatim>\<open>Epsilon\<close>, \<open>p\<close> the plugin the crowd
  was created with, \<open>sim\<close> the native agent positions once the native updates of this
  tick are done. The first call of \<^verbatim>\<open>recastCrowd.update\<close> is the one under the comment
  \<^verbatim>\<open>update obstacles\<close> and happens on every tick.
\<close>

definition update ::
  "(real \<Rightarrow> real \<Rightarrow> real) \<Rightarrow> real \<Rightarrow> plugin \<Rightarrow> (int \<Rightarrow> Vector3 option) \<Rightarrow> real \<Rightarrow> crowd \<Rightarrow>
   (unit, crowd) outcome" where
  "update fdiv eps p sim deltaTime c =
     (let c0 = c\<lparr>crowdUpdates := crowdUpdates c @ [deltaTime]\<rparr>
      in if deltaTime \<le> eps then Returned () c0
         else (let timeStep0 = getTimeStep p;
                   maxStepCount = getMaximumSubStepCount p;
                   c1 = c0\<lparr>crowdUpdates := crowdUpdates c0 @
                                crowdSteps fdiv eps timeStep0 maxStepCount deltaTime\<rparr>
               in updateAgents sim [0..<length (agents c1)] c1))"

text \<open>
  A run of ticks. Each tick brings the plugin settings, the native positions and the
  elapsed time it is called with; a tick that throws leaves its state to the next one.
\<close>

fun updates ::
  "(real \<Rightarrow> real \<Rightarrow> real) \<Rightarrow> real \<Rightarrow> (plugin \<times> (int \<Rightarrow> Vector3 option) \<times> real) list \<Rightarrow>
   crowd \<Rightarrow> crowd" where
  "updates fdiv eps [] c = c"
| "updates fdiv eps ((p, sim, deltaTime) # ticks) c =
     updates fdiv eps ticks (state_of (update fdiv eps p sim deltaTime c))"

text \<open>What one call added to the two logs.\<close>

definition issuedUpdates :: "crowd \<Rightarrow> crowd \<Rightarrow> real list" where
  "issuedUpdates c c' = drop (length (crowdUpdates c)) (crowdUpdates c')"

definition emitted :: "crowd \<Rightarrow> crowd \<Rightarrow> reach_event list" where
  "emitted c c' = drop (length (notified c)) (notified c')"

text \<open>The four arrays \<^verbatim>\<open>addAgent\<close> pushes onto have one length.\<close>

definition lockstep :: "crowd \<Rightarrow> bool" where
  "lockstep c \<longleftrightarrow>
     length (transforms c) = length (agents c) \<and>
     length (agentDestinationArmed c) = length (agents c) \<and>
     length (agentDestination c) = length (agents c)"

section \<open>Notions used by the proofs\<close>

text \<open>
  Slot \<open>j\<close> passes the test of the loop body in a tick: its flag is set and the
  arrival test succeeds. \<open>eventOf\<close> is the record the loop then hands to the observers.
\<close>

definition arrives :: "(int \<Rightarrow> Vector3 option) \<Rightarrow> crowd \<Rightarrow> nat \<Rightarrow> bool" where
  "arrives sim c j \<longleftrightarrow>
     nth_opt (agentDestinationArmed c) j = Some True \<and>
     reached (getAgentPosition sim (agents c ! j)) (agentDestination c ! j)
       (nth_opt (reachRadii c) j)"

definition eventOf :: "crowd \<Rightarrow> nat \<Rightarrow> reach_event" where
  "eventOf c j = \<lparr>agentIndex = agents c ! j, destination = agentDestination c ! j\<rparr>"

text \<open>
  The set flags of the slots holding agent \<open>a\<close>, and the notifications sent for it.
\<close>

definition armedCount :: "int \<Rightarrow> crowd \<Rightarrow> nat" where
  "armedCount a c =
     length (filter (\<lambda>(ag, ar). ag = a \<and> ar) (zip (agents c) (agentDestinationArmed c)))"

definition notifiedCount :: "int \<Rightarrow> crowd \<Rightarrow> nat" where
  "notifiedCount a c = length (filter (\<lambda>e. agentIndex e = a) (notified c))"

section \<open>Concrete states\<close>

text \<open>A scene whose nodes all sit at the origin, and a native crowd without agents.\<close>

definition emptyScene :: "node_ref \<Rightarrow> Vector3" where
  "emptyScene = (\<lambda>n. \<lparr>vx = 0, vy = 0, vz = 0\<rparr>)"

definition noAgents :: "int \<Rightarrow> Vector3 option" where
  "noAgents = (\<lambda>i. None)"

text \<open>
  Division without rounding. It is the division of doubles wherever the exact quotient
  of two doubles is a double, as in the runs below.
\<close>

definition exactDivide :: "real \<Rightarrow> real \<Rightarrow> real" where
  "exactDivide a b = a / b"


definition idleCrowd :: crowd where
  "idleCrowd =
     \<lparr>transforms = [0], agents = [0], reachRadii = [1], agentDestinationArmed = [False],
      agentDestination = [\<lparr>vx = 3, vy = 0, vz = 3\<rparr>], nodePosition = emptyScene,
      notified = [], crowdUpdates = []\<rparr>"


definition nearGoal :: "int \<Rightarrow> Vector3 option" where
  "nearGoal = (\<lambda>i. Some \<lparr>vx = 0, vy = 1 / 2, vz = 0\<rparr>)"

definition lingerTicks :: "(plugin \<times> (int \<Rightarrow> Vector3 option) \<times> real) list" where
  "lingerTicks =
     [(newPlugin, nearGoal, 1 / 60), (newPlugin, nearGoal, 1 / 60), (newPlugin, nearGoal, 1 / 60)]"

text \<open>
  A flat 10 by 10 quad, and a native library that builds mesh 1 alone, mesh 2 with tile
  cache 7, and imports mesh 3; generation succeeds on non-empty geometry.
\<close>

definition quadMesh :: Mesh where
  "quadMesh =
     \<lparr>verticesData = Some [0, 0, 0, 10, 0, 0, 10, 0, 10, 0, 0, 10],
      meshIndices = Some [0, 1, 2, 0, 2, 3]\<rparr>"

definition exampleLib :: recast where
  "exampleLib =
     \<lparr>libFround = (\<lambda>v. v),
      libGenerateSoloNavMesh = (\<lambda>ps is. (ps \<noteq> [], 1)),
      libGenerateTileCache = (\<lambda>ps is. (ps \<noteq> [], 2, 7)),
      libImportNavMesh = (\<lambda>data. 3),
      libAddCylinder = (\<lambda>tc v r h. Some 0),
      libAddBox = (\<lambda>tc v e a. Some 0)\<rparr>"

definition obstacleThenImport :: "plugin_call list" where
  "obstacleThenImport =
     [CreateNavMesh [quadMesh] False,
      AddCylinderObstacle \<lparr>vx = 5, vy = 0, vz = 5\<rparr> 1 2,
      BuildFromNavmeshData [0]]"


definition workerPlugin :: plugin where
  "workerPlugin = newPlugin\<lparr>worker := True\<rparr>"

section \<open>Properties of the crowd\<close>

subsection \<open>What a tick leaves alone\<close>

lemma updateAgent_keeps:
  "agents (state_of (updateAgent sim i c)) = agents c"
  "transforms (state_of (updateAgent sim i c)) = transforms c"
  "reachRadii (state_of (updateAgent sim i c)) = reachRadii c"
  "agentDestination (state_of (updateAgent sim i c)) = agentDestination c"
  "crowdUpdates (state_of (updateAgent sim i c)) = crowdUpdates c"
  "length (agentDestinationArmed (state_of (updateAgent sim i c))) =
     length (agentDestinationArmed c)"
  by (simp_all add: updateAgent_def Let_def)

lemma updateAgents_keeps:
  "agents (state_of (updateAgents sim is c)) = agents c \<and>
   transforms (state_of (updateAgents sim is c)) = transforms c \<and>
   reachRadii (state_of (updateAgents sim is c)) = reachRadii c \<and>
   agentDestination (state_of (updateAgents sim is c)) = agentDestination c \<and>
   crowdUpdates (state_of (updateAgents sim is c)) = crowdUpdates c \<and>
   length (agentDestinationArmed (state_of (updateAgents sim is c))) =
     length (agentDestinationArmed c)"
proof (induction "is" arbitrary: c)
  case Nil
  show ?case by simp
next
  case (Cons i "is")
  show ?case
  proof (cases "updateAgent sim i c")
    case (Returned u c')
    then have "state_of (updateAgent sim i c) = c'" by simp
    with updateAgent_keeps [of sim i c] Cons.IH [of c'] Returned show ?thesis by simp
  next
    case (Threw e c')
    then have "state_of (updateAgent sim i c) = c'" by simp
    with updateAgent_keeps [of sim i c] Threw show ?thesis by simp
  qed
qed

subsection \<open>Calls of the native update\<close>

lemma update_issued:
  "issuedUpdates c (state_of (update fdiv eps p sim deltaTime c)) =
     deltaTime # (if deltaTime \<le> eps then []
                  else crowdSteps fdiv eps (getTimeStep p) (getMaximumSubStepCount p) deltaTime)"
  by (simp add: update_def issuedUpdates_def Let_def updateAgents_keeps)

subsection \<open>Array positions and the four arrays kept together\<close>

lemma indexOf_bounds: "- 1 \<le> indexOf xs v \<and> indexOf xs v < int (length xs)"
  by (induction xs) (auto simp: Let_def)

lemma indexOf_found: "indexOf xs v > - 1 \<Longrightarrow> nat (indexOf xs v) < length xs"
  using indexOf_bounds [of xs v] by simp

lemma indexOf_nth: "indexOf xs v > - 1 \<Longrightarrow> xs ! nat (indexOf xs v) = v"
proof (induction xs)
  case Nil
  then show ?case by simp
next
  case (Cons y ys)
  show ?case
  proof (cases "y = v")
    case True
    then show ?thesis by simp
  next
    case False
    with Cons.prems have r: "indexOf ys v > - 1" by (auto simp: Let_def split: if_splits)
    with False have "indexOf (y # ys) v = indexOf ys v + 1" by (simp add: Let_def)
    moreover have "nat (indexOf ys v + 1) = Suc (nat (indexOf ys v))" using r by simp
    ultimately show ?thesis using Cons.IH [OF r] by simp
  qed
qed

lemma length_splice1: "length (splice1 i xs) = (if i < length xs then length xs - 1 else length xs)"
  by (auto simp: splice1_def)

lemma lockstep_newCrowd: "lockstep (newCrowd scene)"
  by (simp add: lockstep_def newCrowd_def)

lemma lockstep_addAgent: "lockstep c \<Longrightarrow> lockstep (snd (addAgent newIndex pos parameters transform c))"
  by (simp add: lockstep_def addAgent_def)

lemma lockstep_removeAgent: "lockstep c \<Longrightarrow> lockstep (removeAgent index c)"
  by (auto simp: lockstep_def removeAgent_def Let_def length_splice1)

lemma lockstep_agentGoto:
  "lockstep c \<Longrightarrow> \<not> threw (agentGoto index dest c) \<and> lockstep (state_of (agentGoto index dest c))"
  using indexOf_found [of "agents c" index]
  by (auto simp: lockstep_def agentGoto_def Let_def js_set_def)

lemma lockstep_update:
  "lockstep c \<Longrightarrow> lockstep (state_of (update fdiv eps p sim deltaTime c))"
  using updateAgents_keeps
  by (simp add: lockstep_def update_def Let_def)

lemma addAgent_reachRadii:
  "reachRadii (snd (addAgent newIndex pos parameters transform c)) = reachRadii c"
  by (simp add: addAgent_def)

lemma distinct_addAgent:
  "distinct (agents c) \<Longrightarrow> newIndex \<notin> set (agents c) \<Longrightarrow>
     distinct (agents (snd (addAgent newIndex pos parameters transform c)))"
  by (simp add: addAgent_def)

lemma distinct_removeAgent:
  "distinct (agents c) \<Longrightarrow> distinct (agents (removeAgent index c))"
proof -
  assume d: "distinct (agents c)"
  have "distinct (take i (agents c) @ drop (Suc i) (agents c))" for i
  proof -
    have "set (take i (agents c)) \<inter> set (drop (Suc i) (agents c)) = {}"
      using d set_take_disj_set_drop_if_distinct [of "agents c" i "Suc i"] by simp
    with d show ?thesis by simp
  qed
  then show ?thesis using d by (simp add: removeAgent_def Let_def splice1_def)
qed

lemma update_without_timeStep:
  "eps < deltaTime \<Longrightarrow> getTimeStep p \<le> eps \<Longrightarrow>
     issuedUpdates c (state_of (update fdiv eps p sim deltaTime c)) = [deltaTime, deltaTime]"
  by (simp add: update_issued crowdSteps_def)

text \<open>
  Claim C1. The claim: after every operation the five per-agent arrays have one length,
  \<^verbatim>\<open>addAgent\<close> appending a slot to each. The code: \<^verbatim>\<open>addAgent\<close> on a new crowd
  leaves \<^verbatim>\<open>reachRadii\<close> empty while the four other arrays get their slot; the arrays
  differ in length from the first agent on.
\<close>

theorem addAgent_skips_reachRadii:
  "length (agents (snd (addAgent 0 pos parameters transform (newCrowd scene)))) = 1 \<and>
   length (transforms (snd (addAgent 0 pos parameters transform (newCrowd scene)))) = 1 \<and>
   length (agentDestinationArmed
             (snd (addAgent 0 pos parameters transform (newCrowd scene)))) = 1 \<and>
   length (agentDestination (snd (addAgent 0 pos parameters transform (newCrowd scene)))) = 1 \<and>
   length (reachRadii (snd (addAgent 0 pos parameters transform (newCrowd scene)))) = 0"
  by (simp add: addAgent_def newCrowd_def)

text \<open>
  Claim C2. The claim: with a time step of 0 one tick makes exactly one native update,
  of the full elapsed time. The code: with time step 0 and an elapsed time of 0.5 the
  tick calls \<^verbatim>\<open>recastCrowd.update(0.5)\<close> twice, once under the comment
  \<^verbatim>\<open>update obstacles\<close> and once in the stepping block.
\<close>

theorem update_without_timeStep_calls_twice:
  "issuedUpdates (newCrowd scene)
     (state_of (update fdiv (1 / 1000) (setTimeStep 0 newPlugin) sim (1 / 2) (newCrowd scene)))
   = [1 / 2, 1 / 2]"
  by (simp add: update_def issuedUpdates_def crowdSteps_def newCrowd_def setTimeStep_def
      getTimeStep_def newPlugin_def Let_def)

lemma getters_of_setters:
  "getTimeStep (setTimeStep ts (setMaximumSubStepCount cap p)) = ts"
  "getMaximumSubStepCount (setTimeStep ts (setMaximumSubStepCount cap p)) = cap"
  by (simp_all add: getTimeStep_def getMaximumSubStepCount_def setTimeStep_def
      setMaximumSubStepCount_def)

lemma crowdSteps_whole:
  assumes "eps < ts"
  shows "crowdSteps fdiv eps ts (real_of_int cap) deltaTime =
           replicate
             (nat (max 1 (if cap \<noteq> 0 then min cap \<lfloor>fdiv deltaTime ts\<rfloor>
                          else \<lfloor>fdiv deltaTime ts\<rfloor>)))
             (fdiv deltaTime
                (real_of_int (max 1 (if cap \<noteq> 0 then min cap \<lfloor>fdiv deltaTime ts\<rfloor>
                                     else \<lfloor>fdiv deltaTime ts\<rfloor>))))"
proof -
  define f where "f = \<lfloor>fdiv deltaTime ts\<rfloor>"
  define k where "k = max 1 (if cap \<noteq> 0 then min cap f else f)"
  have c1: "(if real_of_int cap \<noteq> 0 \<and> real_of_int f > real_of_int cap
             then real_of_int cap else real_of_int f) =
            real_of_int (if cap \<noteq> 0 then min cap f else f)"
    by (simp add: min_def)
  have c2: "(if real_of_int (if cap \<noteq> 0 then min cap f else f) < 1 then 1
             else real_of_int (if cap \<noteq> 0 then min cap f else f)) = real_of_int k"
    by (simp add: k_def max_def)
  have "crowdSteps fdiv eps ts (real_of_int cap) deltaTime =
          replicate (nat \<lceil>real_of_int k\<rceil>) (fdiv deltaTime (real_of_int k))"
    using assms unfolding crowdSteps_def Let_def f_def [symmetric] c1 c2 by simp
  then show ?thesis by (simp add: k_def f_def)
qed

lemma three_half_steps:
  "tl (issuedUpdates (newCrowd emptyScene)
        (state_of (update exactDivide (1 / 1000)
           (setTimeStep (1 / 4) (setMaximumSubStepCount (real_of_int 3) newPlugin))
           noAgents (3 / 2) (newCrowd emptyScene)))) = [1 / 2, 1 / 2, 1 / 2]"
proof -
  have "(1 / 1000 :: real) < 1 / 4" by simp
  from crowdSteps_whole [OF this, of exactDivide 3 "3 / 2"]
  have "crowdSteps exactDivide (1 / 1000) (1 / 4) (real_of_int 3) (3 / 2) = replicate 3 (1 / 2)"
    by (simp add: exactDivide_def)
  then show ?thesis
    by (simp add: update_issued getters_of_setters numeral_eq_Suc)
qed




subsection \<open>Rounded sums of equal steps\<close>

lemma foldl_replicate_Suc:
  "foldl f a (replicate (Suc n) s) = f (foldl f a (replicate n s)) s"
proof -
  have "replicate (Suc n) s = replicate n s @ [s]"
    by (simp add: replicate_append_same)
  then show ?thesis by (simp only: foldl_append foldl.simps)
qed

lemma rounded_sum_replicate:
  assumes u: "0 \<le> u"
    and add: "\<And>a b. \<bar>fadd a b - (a + b)\<bar> \<le> u * \<bar>a + b\<bar>"
  shows "\<bar>foldl fadd 0 (replicate n s) - real n * s\<bar> \<le> ((1 + u) ^ n - 1) * (real n * \<bar>s\<bar>)"
proof (induction n)
  case 0
  show ?case by simp
next
  case (Suc n)
  define S where "S = foldl fadd 0 (replicate n s)"
  define P where "P = (1 + u) ^ n"
  define m where "m = real n"
  define t where "t = \<bar>s\<bar>"
  have P1: "1 \<le> P" using u by (simp add: P_def)
  have t0: "0 \<le> t" by (simp add: t_def)
  have m0: "0 \<le> m" by (simp add: m_def)
  have IH: "\<bar>S - m * s\<bar> \<le> (P - 1) * (m * t)"
    using Suc.IH by (simp add: S_def P_def m_def t_def)
  have r: "\<bar>fadd S s - (S + s)\<bar> \<le> u * \<bar>S + s\<bar>" by (rule add)
  have "\<bar>S + s\<bar> = \<bar>(S - m * s) + (m + 1) * s\<bar>" by (simp add: algebra_simps)
  also have "\<dots> \<le> \<bar>S - m * s\<bar> + \<bar>(m + 1) * s\<bar>" by (rule abs_triangle_ineq)
  also have "\<bar>(m + 1) * s\<bar> = (m + 1) * t" using m0 by (simp add: abs_mult t_def)
  finally have b: "\<bar>S + s\<bar> \<le> \<bar>S - m * s\<bar> + (m + 1) * t" by simp
  have "\<bar>fadd S s - (m + 1) * s\<bar> = \<bar>(fadd S s - (S + s)) + (S - m * s)\<bar>"
    by (simp add: algebra_simps)
  also have "\<dots> \<le> \<bar>fadd S s - (S + s)\<bar> + \<bar>S - m * s\<bar>" by (rule abs_triangle_ineq)
  also have "\<dots> \<le> u * \<bar>S + s\<bar> + \<bar>S - m * s\<bar>" using r by simp
  also have "\<dots> \<le> u * (\<bar>S - m * s\<bar> + (m + 1) * t) + \<bar>S - m * s\<bar>"
    using b u by (simp add: mult_left_mono)
  also have "\<dots> = (1 + u) * \<bar>S - m * s\<bar> + u * ((m + 1) * t)" by (simp add: algebra_simps)
  also have "\<dots> \<le> (1 + u) * ((P - 1) * (m * t)) + u * ((m + 1) * t)"
    using IH u by (simp add: mult_left_mono)
  also have "\<dots> \<le> ((1 + u) * P - 1) * ((m + 1) * t)"
  proof -
    have "((1 + u) * P - 1) * ((m + 1) * t) -
            ((1 + u) * ((P - 1) * (m * t)) + u * ((m + 1) * t)) = t * ((1 + u) * (P - 1))"
      by (simp add: algebra_simps)
    moreover have "0 \<le> t * ((1 + u) * (P - 1))" using t0 u P1 by simp
    ultimately show ?thesis by linarith
  qed
  finally have fin: "\<bar>fadd S s - (m + 1) * s\<bar> \<le> ((1 + u) * P - 1) * ((m + 1) * t)" .
  have f: "foldl fadd 0 (replicate (Suc n) s) = fadd S s"
    by (simp only: foldl_replicate_Suc S_def)
  have g: "real (Suc n) = m + 1" and h: "(1 + u) ^ Suc n = (1 + u) * P"
    by (simp_all add: m_def P_def)
  show ?case unfolding f g h t_def [symmetric] using fin .
qed

lemma rounded_steps_bound:
  assumes u: "0 \<le> u" and dt: "0 \<le> deltaTime" and k: "1 \<le> k"
    and div: "\<And>a b. 0 < b \<Longrightarrow> \<bar>fdiv a b - a / b\<bar> \<le> u * \<bar>a / b\<bar>"
    and add: "\<And>a b. \<bar>fadd a b - (a + b)\<bar> \<le> u * \<bar>a + b\<bar>"
  shows "\<bar>sum_list (replicate (nat k) (fdiv deltaTime (real_of_int k))) - deltaTime\<bar>
           \<le> u * deltaTime"
    and "\<bar>foldl fadd 0 (replicate (nat k) (fdiv deltaTime (real_of_int k))) - deltaTime\<bar>
           \<le> ((1 + u) ^ Suc (nat k) - 1) * deltaTime"
proof -
  define s where "s = fdiv deltaTime (real_of_int k)"
  define r where "r = real_of_int k"
  define P where "P = (1 + u) ^ nat k"
  have r1: "1 \<le> r" using k by (simp add: r_def)
  have rn: "real (nat k) = r" using k by (simp add: r_def)
  have P1: "1 \<le> P" using u by (simp add: P_def)
  have "\<bar>s - deltaTime / r\<bar> \<le> u * \<bar>deltaTime / r\<bar>"
    unfolding s_def r_def using k by (intro div) simp
  then have e: "\<bar>s - deltaTime / r\<bar> \<le> u * (deltaTime / r)" using dt r1 by simp
  have "r * \<bar>s - deltaTime / r\<bar> \<le> r * (u * (deltaTime / r))"
    using e r1 by (intro mult_left_mono) simp_all
  moreover have "r * (u * (deltaTime / r)) = u * deltaTime" using r1 by simp
  moreover have "r * \<bar>s - deltaTime / r\<bar> = \<bar>r * s - deltaTime\<bar>"
  proof -
    have "r * \<bar>s - deltaTime / r\<bar> = \<bar>r * (s - deltaTime / r)\<bar>" using r1 by (simp add: abs_mult)
    also have "r * (s - deltaTime / r) = r * s - deltaTime" using r1 by (simp add: algebra_simps)
    finally show ?thesis .
  qed
  ultimately have exact: "\<bar>r * s - deltaTime\<bar> \<le> u * deltaTime" by simp
  have "sum_list (replicate (nat k) s) = r * s" by (simp add: sum_list_replicate rn)
  with exact have "\<bar>sum_list (replicate (nat k) s) - deltaTime\<bar> \<le> u * deltaTime" by simp
  then show "\<bar>sum_list (replicate (nat k) (fdiv deltaTime (real_of_int k))) - deltaTime\<bar>
           \<le> u * deltaTime"
    by (simp only: s_def)
  have "\<bar>s\<bar> \<le> \<bar>s - deltaTime / r\<bar> + \<bar>deltaTime / r\<bar>"
    using abs_triangle_ineq [of "s - deltaTime / r" "deltaTime / r"] by simp
  moreover have "\<bar>deltaTime / r\<bar> = deltaTime / r" using dt r1 by simp
  moreover have "(1 + u) * (deltaTime / r) = deltaTime / r + u * (deltaTime / r)"
    by (simp only: distrib_right mult_1)
  ultimately have "\<bar>s\<bar> \<le> (1 + u) * (deltaTime / r)" using e by linarith
  then have "r * \<bar>s\<bar> \<le> r * ((1 + u) * (deltaTime / r))"
    using r1 by (intro mult_left_mono) simp_all
  then have rs: "r * \<bar>s\<bar> \<le> (1 + u) * deltaTime" using r1 by simp
  have "\<bar>foldl fadd 0 (replicate (nat k) s) - r * s\<bar> \<le> (P - 1) * (r * \<bar>s\<bar>)"
    using rounded_sum_replicate [OF u add, of "nat k" s] by (simp add: rn P_def)
  also have "\<dots> \<le> (P - 1) * ((1 + u) * deltaTime)"
    using rs P1 by (intro mult_left_mono) simp_all
  finally have acc: "\<bar>foldl fadd 0 (replicate (nat k) s) - r * s\<bar> \<le> (P - 1) * ((1 + u) * deltaTime)" .
  have "\<bar>foldl fadd 0 (replicate (nat k) s) - deltaTime\<bar> =
          \<bar>(foldl fadd 0 (replicate (nat k) s) - r * s) + (r * s - deltaTime)\<bar>" by simp
  also have "\<dots> \<le> \<bar>foldl fadd 0 (replicate (nat k) s) - r * s\<bar> + \<bar>r * s - deltaTime\<bar>"
    by (rule abs_triangle_ineq)
  also have "\<dots> \<le> (P - 1) * ((1 + u) * deltaTime) + u * deltaTime"
    using acc exact by simp
  also have "\<dots> = ((1 + u) * P - 1) * deltaTime" by (simp add: algebra_simps)
  finally have "\<bar>foldl fadd 0 (replicate (nat k) s) - deltaTime\<bar> \<le> ((1 + u) * P - 1) * deltaTime" .
  moreover have "(1 + u) ^ Suc (nat k) = (1 + u) * P" by (simp add: P_def)
  ultimately show "\<bar>foldl fadd 0 (replicate (nat k) (fdiv deltaTime (real_of_int k))) - deltaTime\<bar>
           \<le> ((1 + u) ^ Suc (nat k) - 1) * deltaTime"
    by (simp only: s_def)
qed

text \<open>
  Claim C4. For every elapsed time \<open>\<ge> 0\<close>, every time step and every whole maximum step
  count (so for the time steps 0, 1/60, 1/30 and the maxima 0, 1, 10 of the claim), the
  sizes of the sub-steps of a tick add up to the elapsed time within floating tolerance.
  The tolerance is made explicit. \<open>u\<close> bounds the relative rounding error of the
  division and of the addition of doubles. When the elapsed time is above epsilon,
  the exact sum of the sub-step sizes is within \<open>u * deltaTime\<close> of the elapsed time,
  and their sum accumulated in rounded additions is within
  \<open>((1 + u) ^ (n + 1) - 1) * deltaTime\<close>, \<open>n\<close> being the number of sub-steps. When the
  elapsed time is at most epsilon, stepping is skipped, the sum is empty and differs
  from the elapsed time by the elapsed time itself, which is at most epsilon. The
  sub-steps of a tick are the native updates after the one made on every tick.
\<close>

theorem substep_sum:
  assumes "0 \<le> eps" and "0 \<le> deltaTime" and "0 \<le> u"
    and div: "\<And>a b. 0 < b \<Longrightarrow> \<bar>fdiv a b - a / b\<bar> \<le> u * \<bar>a / b\<bar>"
    and add: "\<And>a b. \<bar>fadd a b - (a + b)\<bar> \<le> u * \<bar>a + b\<bar>"
  shows "let steps = tl (issuedUpdates c
                           (state_of (update fdiv eps
                              (setTimeStep ts (setMaximumSubStepCount (real_of_int cap) p))
                              sim deltaTime c)))
         in \<bar>sum_list steps - deltaTime\<bar> \<le> max eps (u * deltaTime) \<and>
            \<bar>foldl fadd 0 steps - deltaTime\<bar>
              \<le> max eps (((1 + u) ^ Suc (length steps) - 1) * deltaTime) \<and>
            (eps < deltaTime \<longrightarrow>
               \<bar>sum_list steps - deltaTime\<bar> \<le> u * deltaTime \<and>
               \<bar>foldl fadd 0 steps - deltaTime\<bar>
                 \<le> ((1 + u) ^ Suc (length steps) - 1) * deltaTime) \<and>
            (deltaTime \<le> eps \<longrightarrow> steps = [])"
proof -
  let ?P = "setTimeStep ts (setMaximumSubStepCount (real_of_int cap) p)"
  let ?steps = "tl (issuedUpdates c (state_of (update fdiv eps ?P sim deltaTime c)))"
  consider (skipped) "deltaTime \<le> eps" | (single) "eps < deltaTime" "ts \<le> eps"
    | (split) "eps < deltaTime" "eps < ts"
    by linarith
  then have "\<bar>sum_list ?steps - deltaTime\<bar> \<le> max eps (u * deltaTime) \<and>
             \<bar>foldl fadd 0 ?steps - deltaTime\<bar>
               \<le> max eps (((1 + u) ^ Suc (length ?steps) - 1) * deltaTime) \<and>
             (eps < deltaTime \<longrightarrow>
                \<bar>sum_list ?steps - deltaTime\<bar> \<le> u * deltaTime \<and>
                \<bar>foldl fadd 0 ?steps - deltaTime\<bar>
                  \<le> ((1 + u) ^ Suc (length ?steps) - 1) * deltaTime) \<and>
             (deltaTime \<le> eps \<longrightarrow> ?steps = [])"
  proof cases
    case skipped
    then have "?steps = []" by (simp add: update_issued)
    with skipped assms(2) show ?thesis by simp
  next
    case single
    then have st: "?steps = [deltaTime]"
      by (simp add: update_issued getters_of_setters crowdSteps_def)
    have "\<bar>fadd 0 deltaTime - (0 + deltaTime)\<bar> \<le> u * \<bar>0 + deltaTime\<bar>" by (rule add)
    then have a: "\<bar>fadd 0 deltaTime - deltaTime\<bar> \<le> u * deltaTime" using assms(2) by simp
    have "u * deltaTime \<le> ((1 + u) ^ Suc (Suc 0) - 1) * deltaTime"
    proof -
      have "((1 + u) ^ Suc (Suc 0) - 1) * deltaTime - u * deltaTime = (u + u * u) * deltaTime"
        by (simp add: algebra_simps)
      moreover have "0 \<le> (u + u * u) * deltaTime" using assms(2,3) by simp
      ultimately show ?thesis by linarith
    qed
    with a have "\<bar>fadd 0 deltaTime - deltaTime\<bar> \<le> ((1 + u) ^ Suc (Suc 0) - 1) * deltaTime"
      by linarith
    moreover have "0 \<le> u * deltaTime" using assms(2,3) by simp
    ultimately show ?thesis using st single(1) by (simp add: max_def)
  next
    case split
    define k where "k = max 1 (if cap \<noteq> 0 then min cap \<lfloor>fdiv deltaTime ts\<rfloor>
                               else \<lfloor>fdiv deltaTime ts\<rfloor>)"
    have k1: "1 \<le> k" by (simp add: k_def)
    have st: "?steps = replicate (nat k) (fdiv deltaTime (real_of_int k))"
      using split crowdSteps_whole [OF split(2), of fdiv cap deltaTime]
      by (simp add: update_issued getters_of_setters k_def)
    from rounded_steps_bound [OF assms(3,2) k1 div add]
    have "\<bar>sum_list ?steps - deltaTime\<bar> \<le> u * deltaTime"
      and "\<bar>foldl fadd 0 ?steps - deltaTime\<bar> \<le> ((1 + u) ^ Suc (length ?steps) - 1) * deltaTime"
      by (simp_all add: st)
    then show ?thesis using split(1) by (simp add: max_def)
  qed
  then show ?thesis unfolding Let_def .
qed

theorem substep_sum_witness:
  "tl (issuedUpdates (newCrowd emptyScene)
        (state_of (update exactDivide (1 / 1000)
           (setTimeStep (1 / 4) (setMaximumSubStepCount (real_of_int 3) newPlugin))
           noAgents (3 / 2) (newCrowd emptyScene)))) = [1 / 2, 1 / 2, 1 / 2] \<and>
   \<bar>sum_list (tl (issuedUpdates (newCrowd emptyScene)
        (state_of (update exactDivide (1 / 1000)
           (setTimeStep (1 / 4) (setMaximumSubStepCount (real_of_int 3) newPlugin))
           noAgents (3 / 2) (newCrowd emptyScene))))) - 3 / 2\<bar> \<le> 0 * (3 / 2) \<and>
   \<bar>foldl (+) 0 (tl (issuedUpdates (newCrowd emptyScene)
        (state_of (update exactDivide (1 / 1000)
           (setTimeStep (1 / 4) (setMaximumSubStepCount (real_of_int 3) newPlugin))
           noAgents (3 / 2) (newCrowd emptyScene))))) - 3 / 2\<bar>
     \<le> ((1 + 0) ^ Suc 3 - 1) * (3 / 2) \<and>
   tl (issuedUpdates (newCrowd emptyScene)
        (state_of (update exactDivide (1 / 1000)
           (setTimeStep (1 / 4) (setMaximumSubStepCount (real_of_int 3) newPlugin))
           noAgents (1 / 2000) (newCrowd emptyScene)))) = [] \<and>
   \<bar>sum_list (tl (issuedUpdates (newCrowd emptyScene)
        (state_of (update exactDivide (1 / 1000)
           (setTimeStep (1 / 4) (setMaximumSubStepCount (real_of_int 3) newPlugin))
           noAgents (1 / 2000) (newCrowd emptyScene))))) - 1 / 2000\<bar>
     \<le> max (1 / 1000) (0 * (1 / 2000))"
proof -
  have h1: "(0::real) \<le> 1 / 1000" and h2: "(0::real) \<le> 3 / 2" and h2': "(0::real) \<le> 1 / 2000"
    and h3: "(0::real) \<le> 0"
    by simp_all
  have hdiv: "\<And>a b :: real. 0 < b \<Longrightarrow> \<bar>exactDivide a b - a / b\<bar> \<le> 0 * \<bar>a / b\<bar>"
    by (simp add: exactDivide_def)
  have hadd: "\<And>a b :: real. \<bar>a + b - (a + b)\<bar> \<le> 0 * \<bar>a + b\<bar>"
    by simp
  have steps: "tl (issuedUpdates (newCrowd emptyScene)
        (state_of (update exactDivide (1 / 1000)
           (setTimeStep (1 / 4) (setMaximumSubStepCount (real_of_int 3) newPlugin))
           noAgents (3 / 2) (newCrowd emptyScene)))) = [1 / 2, 1 / 2, 1 / 2]"
    by (rule three_half_steps)
  from substep_sum [OF h1 h2 h3 hdiv hadd, where c = "newCrowd emptyScene" and ts = "1 / 4"
                      and cap = 3 and p = newPlugin and sim = noAgents]
  have stepped: "\<bar>sum_list (tl (issuedUpdates (newCrowd emptyScene)
        (state_of (update exactDivide (1 / 1000)
           (setTimeStep (1 / 4) (setMaximumSubStepCount (real_of_int 3) newPlugin))
           noAgents (3 / 2) (newCrowd emptyScene))))) - 3 / 2\<bar> \<le> 0 * (3 / 2) \<and>
   \<bar>foldl (+) 0 (tl (issuedUpdates (newCrowd emptyScene)
        (state_of (update exactDivide (1 / 1000)
           (setTimeStep (1 / 4) (setMaximumSubStepCount (real_of_int 3) newPlugin))
           noAgents (3 / 2) (newCrowd emptyScene))))) - 3 / 2\<bar>
     \<le> ((1 + 0) ^ Suc 3 - 1) * (3 / 2)"
    unfolding Let_def steps by simp
  from substep_sum [OF h1 h2' h3 hdiv hadd, where c = "newCrowd emptyScene" and ts = "1 / 4"
                      and cap = 3 and p = newPlugin and sim = noAgents]
  have skipped: "tl (issuedUpdates (newCrowd emptyScene)
        (state_of (update exactDivide (1 / 1000)
           (setTimeStep (1 / 4) (setMaximumSubStepCount (real_of_int 3) newPlugin))
           noAgents (1 / 2000) (newCrowd emptyScene)))) = [] \<and>
   \<bar>sum_list (tl (issuedUpdates (newCrowd emptyScene)
        (state_of (update exactDivide (1 / 1000)
           (setTimeStep (1 / 4) (setMaximumSubStepCount (real_of_int 3) newPlugin))
           noAgents (1 / 2000) (newCrowd emptyScene))))) - 1 / 2000\<bar>
     \<le> max (1 / 1000) (0 * (1 / 2000))"
    unfolding Let_def by simp
  from steps stepped skipped show ?thesis by simp
qed

subsection \<open>The arrival loop\<close>




lemma arrives_crowdUpdates [simp]: "arrives sim (c\<lparr>crowdUpdates := u\<rparr>) = arrives sim c"
  by (rule ext) (simp add: arrives_def)

lemma eventOf_crowdUpdates [simp]: "eventOf (c\<lparr>crowdUpdates := u\<rparr>) = eventOf c"
  by (rule ext) (simp add: eventOf_def)

lemma lockstep_crowdUpdates [simp]: "lockstep (c\<lparr>crowdUpdates := u\<rparr>) = lockstep c"
  by (simp add: lockstep_def)






subsection \<open>Flags and notifications of one agent\<close>

lemma disarm_count:
  "i < length xs \<Longrightarrow> i < length ys \<Longrightarrow> ys ! i \<Longrightarrow>
     length (filter (\<lambda>(x, y). x = a \<and> y) (zip xs (ys[i := False]))) +
       (if xs ! i = a then 1 else 0) =
     length (filter (\<lambda>(x, y). x = a \<and> y) (zip xs ys))"
proof (induction xs arbitrary: ys i)
  case Nil
  then show ?case by simp
next
  case (Cons x xs)
  then obtain y ys' where ys: "ys = y # ys'" by (cases ys) auto
  show ?case
  proof (cases i)
    case 0
    with Cons.prems ys show ?thesis by simp
  next
    case (Suc i')
    with Cons.prems ys have "i' < length xs" "i' < length ys'" "ys' ! i'" by simp_all
    from Cons.IH [OF this] Suc ys show ?thesis by (simp split: if_splits)
  qed
qed

lemma updateAgent_counts:
  assumes "i < length (agents c)"
  shows "notifiedCount a (state_of (updateAgent sim i c)) +
           armedCount a (state_of (updateAgent sim i c)) =
         notifiedCount a c + armedCount a c"
proof (cases "length (transforms c) \<le> i \<or> nth_opt (agentDestinationArmed c) i \<noteq> Some True \<or>
              length (agentDestination c) \<le> i \<or>
              \<not> reached (getAgentPosition sim (agents c ! i)) (agentDestination c ! i)
                  (nth_opt (reachRadii c) i)")
  case True
  then show ?thesis
    by (auto simp: updateAgent_def Let_def armedCount_def notifiedCount_def)
next
  case False
  then have il: "i < length (agentDestinationArmed c)" and ai: "agentDestinationArmed c ! i"
    by (auto simp: nth_opt_def split: if_splits)
  from False have st: "state_of (updateAgent sim i c) =
      c\<lparr>nodePosition := (nodePosition c)(transforms c ! i := getAgentPosition sim (agents c ! i)),
        agentDestinationArmed := (agentDestinationArmed c)[i := False],
        notified := notified c @
          [\<lparr>agentIndex = agents c ! i, destination = agentDestination c ! i\<rparr>]\<rparr>"
    by (simp add: updateAgent_def Let_def)
  from disarm_count [OF assms il ai, of a] show ?thesis
    by (simp add: st armedCount_def notifiedCount_def split: if_splits)
qed

lemma updateAgents_counts:
  assumes "\<forall>i \<in> set is. i < length (agents c)"
  shows "notifiedCount a (state_of (updateAgents sim is c)) +
           armedCount a (state_of (updateAgents sim is c)) =
         notifiedCount a c + armedCount a c"
  using assms
proof (induction "is" arbitrary: c)
  case Nil
  show ?case by simp
next
  case (Cons i "is")
  have step: "notifiedCount a (state_of (updateAgent sim i c)) +
                armedCount a (state_of (updateAgent sim i c)) =
              notifiedCount a c + armedCount a c"
    using Cons.prems by (simp add: updateAgent_counts)
  show ?case
  proof (cases "updateAgent sim i c")
    case (Returned u c')
    then have c': "state_of (updateAgent sim i c) = c'" by simp
    have "agents c' = agents c" using updateAgent_keeps(1) [of sim i c] c' by simp
    with Cons.prems have "\<forall>j \<in> set is. j < length (agents c')" by simp
    from Cons.IH [OF this] step c' Returned show ?thesis by simp
  next
    case (Threw e c')
    with step show ?thesis by simp
  qed
qed

lemma armedCount_crowdUpdates [simp]: "armedCount a (c\<lparr>crowdUpdates := u\<rparr>) = armedCount a c"
  by (simp add: armedCount_def)

lemma notifiedCount_crowdUpdates [simp]:
  "notifiedCount a (c\<lparr>crowdUpdates := u\<rparr>) = notifiedCount a c"
  by (simp add: notifiedCount_def)

lemma update_counts:
  "notifiedCount a (state_of (update fdiv eps p sim deltaTime c)) +
     armedCount a (state_of (update fdiv eps p sim deltaTime c)) =
   notifiedCount a c + armedCount a c"
  by (simp add: update_def Let_def updateAgents_counts)

lemma updates_counts:
  "notifiedCount a (updates fdiv eps ticks c) + armedCount a (updates fdiv eps ticks c) =
   notifiedCount a c + armedCount a c"
proof (induction ticks arbitrary: c)
  case Nil
  show ?case by simp
next
  case (Cons tick ticks)
  obtain p sim deltaTime where tick: "tick = (p, sim, deltaTime)" by (cases tick) auto
  show ?case
    using Cons.IH [of "state_of (update fdiv eps p sim deltaTime c)"]
    by (simp add: tick update_counts)
qed

lemma updateAgent_notified_grows:
  "\<exists>new. notified (state_of (updateAgent sim i c)) = notified c @ new"
  by (simp add: updateAgent_def Let_def)

lemma updateAgents_notified_grows:
  "\<exists>new. notified (state_of (updateAgents sim is c)) = notified c @ new"
proof (induction "is" arbitrary: c)
  case Nil
  show ?case by simp
next
  case (Cons i "is")
  obtain new1 where n1: "notified (state_of (updateAgent sim i c)) = notified c @ new1"
    using updateAgent_notified_grows by blast
  show ?case
  proof (cases "updateAgent sim i c")
    case (Returned u c')
    with n1 have "notified c' = notified c @ new1" by simp
    moreover obtain new2 where "notified (state_of (updateAgents sim is c')) = notified c' @ new2"
      using Cons.IH by blast
    ultimately show ?thesis using Returned by simp
  next
    case (Threw e c')
    with n1 show ?thesis by simp
  qed
qed

lemma update_notified_grows:
  "\<exists>new. notified (state_of (update fdiv eps p sim deltaTime c)) = notified c @ new"
proof (cases "deltaTime \<le> eps")
  case True
  then show ?thesis by (simp add: update_def Let_def)
next
  case False
  define c1 where
    "c1 = c\<lparr>crowdUpdates := crowdUpdates c @ deltaTime #
              crowdSteps fdiv eps (getTimeStep p) (getMaximumSubStepCount p) deltaTime\<rparr>"
  obtain new where "notified (state_of (updateAgents sim [0..<length (agents c1)] c1)) =
      notified c1 @ new"
    using updateAgents_notified_grows by blast
  with False show ?thesis by (simp add: update_def Let_def c1_def)
qed

lemma updates_notified_grows:
  "\<exists>new. notified (updates fdiv eps ticks c) = notified c @ new"
proof (induction ticks arbitrary: c)
  case Nil
  show ?case by simp
next
  case (Cons tick ticks)
  obtain p sim deltaTime where tick: "tick = (p, sim, deltaTime)" by (cases tick) auto
  obtain new1 where n1: "notified (state_of (update fdiv eps p sim deltaTime c)) = notified c @ new1"
    using update_notified_grows by blast
  obtain new2 where "notified (updates fdiv eps ticks (state_of (update fdiv eps p sim deltaTime c))) =
      notified (state_of (update fdiv eps p sim deltaTime c)) @ new2"
    using Cons.IH by blast
  with n1 tick show ?case by simp
qed

lemma emitted_count:
  "length (filter (\<lambda>e. agentIndex e = a) (emitted c (updates fdiv eps ticks c))) + notifiedCount a c =
   notifiedCount a (updates fdiv eps ticks c)"
proof -
  obtain new where "notified (updates fdiv eps ticks c) = notified c @ new"
    using updates_notified_grows by blast
  then show ?thesis by (simp add: emitted_def notifiedCount_def)
qed

lemma absent_count:
  "a \<notin> set xs \<Longrightarrow> filter (\<lambda>(x, y). x = a \<and> y) (zip xs ys) = []"
  by (auto simp: filter_empty_conv dest: set_zip_leftD)

lemma distinct_count:
  "distinct xs \<Longrightarrow> length (filter (\<lambda>(x, y). x = a \<and> y) (zip xs ys)) \<le> 1"
proof (induction xs arbitrary: ys)
  case Nil
  show ?case by simp
next
  case (Cons x xs)
  show ?case
  proof (cases ys)
    case Nil
    then show ?thesis by simp
  next
    case (Cons y ys')
    show ?thesis
    proof (cases "x = a")
      case True
      with Cons.prems have "a \<notin> set xs" by simp
      then show ?thesis using Cons by (simp add: absent_count)
    next
      case False
      with Cons.IH [of ys'] Cons.prems Cons show ?thesis by simp
    qed
  qed
qed

lemma agentGoto_agents: "agents (state_of (agentGoto index dest c)) = agents c"
  by (simp add: agentGoto_def Let_def)

text \<open>
  Claim C6. In a crowd whose agent indices are distinct, after \<^verbatim>\<open>agentGoto\<close> for an
  agent, any run of ticks sends at most one notification for that agent, however long
  the agent stays within reach: only \<^verbatim>\<open>agentGoto\<close> sets a flag, and the
  notification clears it.
\<close>

theorem one_notification_per_agentGoto:
  assumes "distinct (agents c)"
  shows "length (filter (\<lambda>e. agentIndex e = index)
                   (emitted (state_of (agentGoto index dest c))
                      (updates fdiv eps ticks (state_of (agentGoto index dest c))))) \<le> 1"
proof -
  let ?g = "state_of (agentGoto index dest c)"
  have "armedCount index ?g \<le> 1"
    using distinct_count [OF assms, of index "agentDestinationArmed ?g"]
    by (simp add: armedCount_def agentGoto_agents)
  moreover have "length (filter (\<lambda>e. agentIndex e = index) (emitted ?g (updates fdiv eps ticks ?g))) +
      notifiedCount index ?g + armedCount index (updates fdiv eps ticks ?g) =
      notifiedCount index ?g + armedCount index ?g"
    using emitted_count [where a = index and c = ?g and fdiv = fdiv and eps = eps and ticks = ticks]
      updates_counts [where a = index and c = ?g and fdiv = fdiv and eps = eps and ticks = ticks]
    by simp
  ultimately show ?thesis by simp
qed

theorem one_notification_per_agentGoto_witness:
  "distinct (agents idleCrowd) \<and>
   emitted (state_of (agentGoto 0 \<lparr>vx = 0, vy = 0, vz = 0\<rparr> idleCrowd))
     (updates exactDivide (1 / 1000) lingerTicks
        (state_of (agentGoto 0 \<lparr>vx = 0, vy = 0, vz = 0\<rparr> idleCrowd)))
     = [\<lparr>agentIndex = 0, destination = \<lparr>vx = 0, vy = 0, vz = 0\<rparr>\<rparr>] \<and>
   length (filter (\<lambda>e. agentIndex e = 0)
      (emitted (state_of (agentGoto 0 \<lparr>vx = 0, vy = 0, vz = 0\<rparr> idleCrowd))
         (updates exactDivide (1 / 1000) lingerTicks
            (state_of (agentGoto 0 \<lparr>vx = 0, vy = 0, vz = 0\<rparr> idleCrowd))))) \<le> 1"
proof -
  have h: "distinct (agents idleCrowd)" by (simp add: idleCrowd_def)
  have g: "state_of (agentGoto 0 \<lparr>vx = 0, vy = 0, vz = 0\<rparr> idleCrowd) =
      idleCrowd\<lparr>agentDestinationArmed := [True],
                agentDestination := [\<lparr>vx = 0, vy = 0, vz = 0\<rparr>]\<rparr>"
    by (simp add: agentGoto_def idleCrowd_def js_set_def Let_def)
  have e: "emitted (state_of (agentGoto 0 \<lparr>vx = 0, vy = 0, vz = 0\<rparr> idleCrowd))
     (updates exactDivide (1 / 1000) lingerTicks
        (state_of (agentGoto 0 \<lparr>vx = 0, vy = 0, vz = 0\<rparr> idleCrowd)))
     = [\<lparr>agentIndex = 0, destination = \<lparr>vx = 0, vy = 0, vz = 0\<rparr>\<rparr>]"
    unfolding g
    by (simp add: emitted_def lingerTicks_def idleCrowd_def nearGoal_def update_def
        updateAgent_def getAgentPosition_def reached_def nth_opt_def Let_def)
  from one_notification_per_agentGoto
         [OF h, where index = 0 and dest = "\<lparr>vx = 0, vy = 0, vz = 0\<rparr>" and fdiv = exactDivide
            and eps = "1 / 1000" and ticks = lingerTicks]
    h e show ?thesis by simp
qed

section \<open>Properties of the plugin\<close>

text \<open>
  Claim C7. For every pair of points, \<^verbatim>\<open>computePathSmooth\<close> returns what
  \<^verbatim>\<open>computePath\<close> returns, in every plugin state: the same points, or the same
  failure, and the same state afterwards.
\<close>

theorem computePathSmooth_eq_computePath:
  "computePathSmooth queryComputePath start end p = computePath queryComputePath start end p"
  by (simp add: computePathSmooth_def computePath_def)

text \<open>
  Claim C10. Given a first mesh, the outcome of \<^verbatim>\<open>createNavMesh\<close> is the same
  whatever meshes follow it, for every generator, with or without a worker: the
  retained geometry, the arguments of the generator and the message posted to the
  worker are those of the first mesh.
\<close>

theorem createNavMesh_first_mesh_only:
  "createNavMesh fround generateSoloNavMesh (mesh0 # others) completion p =
     createNavMesh fround generateSoloNavMesh (mesh0 # others') completion p"
  by (simp add: createNavMesh_def)

text \<open>
  Claim C8. When \<^verbatim>\<open>createNavMesh\<close> takes the blocking path (no worker, or no
  callback), it throws exactly when the mesh array is empty or the generator reports
  failure; when it throws, the navigation mesh and the query held before are still
  held; when it returns, the generated mesh and a new query bound to it are held.
\<close>

theorem createNavMesh_blocking:
  assumes "\<not> (worker p \<and> completion)"
  shows "let r = createNavMesh fround generateSoloNavMesh meshes completion p;
             generated = generateSoloNavMesh
                           (Float32Array_from fround (verticesData (hd meshes)))
                           (Float32Array_from fround (meshIndices (hd meshes)))
         in (threw r \<longleftrightarrow> meshes = [] \<or> \<not> fst generated) \<and>
            (threw r \<longrightarrow>
               navMesh (state_of r) = navMesh p \<and> navMeshQuery (state_of r) = navMeshQuery p) \<and>
            (\<not> threw r \<longrightarrow>
               navMesh (state_of r) = Some (snd generated) \<and>
               navMeshQuery (state_of r) = Some (newNavMeshQuery (snd generated)))"
  using assms
  by (cases meshes) (auto simp: createNavMesh_def Let_def split: prod.splits)

theorem createNavMesh_blocking_witness:
  "\<not> (worker newPlugin \<and> False) \<and>
   \<not> threw (createNavMesh (\<lambda>v. v) (\<lambda>ps is. (ps \<noteq> [], 1)) [quadMesh] False newPlugin) \<and>
   navMesh (state_of (createNavMesh (\<lambda>v. v) (\<lambda>ps is. (ps \<noteq> [], 1)) [quadMesh] False newPlugin))
     = Some 1 \<and>
   navMeshQuery (state_of (createNavMesh (\<lambda>v. v) (\<lambda>ps is. (ps \<noteq> [], 1)) [quadMesh] False newPlugin))
     = Some (newNavMeshQuery 1) \<and>
   threw (createNavMesh (\<lambda>v. v) (\<lambda>ps is. (ps \<noteq> [], 1)) [] False newPlugin) \<and>
   navMesh (state_of (createNavMesh (\<lambda>v. v) (\<lambda>ps is. (ps \<noteq> [], 1)) [] False newPlugin))
     = navMesh newPlugin"
proof -
  have h: "\<not> (worker newPlugin \<and> False)" by simp
  have built: "\<not> threw (createNavMesh (\<lambda>v. v) (\<lambda>ps is. (ps \<noteq> [], 1)) [quadMesh] False newPlugin) \<and>
      navMesh (state_of (createNavMesh (\<lambda>v. v) (\<lambda>ps is. (ps \<noteq> [], 1)) [quadMesh] False newPlugin))
        = Some 1 \<and>
      navMeshQuery (state_of (createNavMesh (\<lambda>v. v) (\<lambda>ps is. (ps \<noteq> [], 1)) [quadMesh] False newPlugin))
        = Some (newNavMeshQuery 1)"
    using createNavMesh_blocking [OF h, of "\<lambda>v. v" "\<lambda>ps is. (ps \<noteq> [], 1)" "[quadMesh]"]
    by (simp add: Let_def quadMesh_def Float32Array_from_def)
  have failed: "threw (createNavMesh (\<lambda>v. v) (\<lambda>ps is. (ps \<noteq> [], 1)) [] False newPlugin) \<and>
      navMesh (state_of (createNavMesh (\<lambda>v. v) (\<lambda>ps is. (ps \<noteq> [], 1)) [] False newPlugin))
        = navMesh newPlugin"
    using createNavMesh_blocking [OF h, of "\<lambda>v. v" "\<lambda>ps is. (ps \<noteq> [], 1)" "[]"]
    by (simp add: Let_def)
  from h built failed show ?thesis by simp
qed

subsection \<open>The tile cache\<close>

lemma createTileCache_kept:
  "tileCache p = Some tc \<Longrightarrow> createTileCache g p = Returned () p"
  by (simp add: createTileCache_def)

lemma createTileCache_created:
  "tileCache p = None \<Longrightarrow> positions p = Float32Array ps \<Longrightarrow> indices p = Float32Array is \<Longrightarrow>
   g ps is = (True, nm, tc) \<Longrightarrow>
     createTileCache g p = Returned () (p\<lparr>tileCache := Some tc, navMesh := Some nm\<rparr>)"
  by (simp add: createTileCache_def)

lemma createTileCache_only:
  "tileCache p = None \<Longrightarrow> tileCache (state_of (createTileCache g p)) = Some tc \<Longrightarrow>
     \<exists>ps is nm. positions p = Float32Array ps \<and> indices p = Float32Array is \<and>
       g ps is = (True, nm, tc) \<and>
       createTileCache g p = Returned () (p\<lparr>tileCache := Some tc, navMesh := Some nm\<rparr>)"
  by (auto simp: createTileCache_def split: typed_array.splits prod.splits if_splits)

lemma pluginStep_keeps_tileCache:
  "tileCache p = Some tc \<Longrightarrow> tileCache (pluginStep lib call p) = Some tc"
  by (cases call)
     (auto simp: createNavMesh_def workerOnMessage_def buildFromNavmeshData_def
        addCylinderObstacle_def addBoxObstacle_def removeObstacle_def createTileCache_kept
        Let_def split: list.splits prod.splits)

lemma pluginRun_keeps_tileCache:
  "tileCache p = Some tc \<Longrightarrow> tileCache (pluginRun lib calls p) = Some tc"
  by (induction calls arbitrary: p) (simp_all add: pluginStep_keeps_tileCache)

lemma pluginStep_obstacle_keeps_navMesh:
  "tileCache p = Some tc \<Longrightarrow> isObstacleCall call \<Longrightarrow> navMesh (pluginStep lib call p) = navMesh p"
  by (cases call)
     (auto simp: addCylinderObstacle_def addBoxObstacle_def removeObstacle_def
        createTileCache_kept Let_def)

lemma pluginRun_obstacle_keeps_navMesh:
  "tileCache p = Some tc \<Longrightarrow> list_all isObstacleCall calls \<Longrightarrow>
     navMesh (pluginRun lib calls p) = navMesh p"
proof (induction calls arbitrary: p)
  case Nil
  show ?case by simp
next
  case (Cons call calls)
  from Cons.prems have tc': "tileCache (pluginStep lib call p) = Some tc"
    by (simp add: pluginStep_keeps_tileCache)
  from Cons.prems have "navMesh (pluginStep lib call p) = navMesh p"
    by (simp add: pluginStep_obstacle_keeps_navMesh)
  with Cons.IH [OF tc'] Cons.prems show ?case by simp
qed

lemma pluginStep_add_creates:
  assumes "tileCache p = None" and "isAddObstacleCall call"
    and "positions p = Float32Array ps" and "indices p = Float32Array is"
    and "libGenerateTileCache lib ps is = (True, nm, tc)"
  shows "tileCache (pluginStep lib call p) = Some tc \<and> navMesh (pluginStep lib call p) = Some nm"
proof -
  have made: "createTileCache (libGenerateTileCache lib) p =
                Returned () (p\<lparr>tileCache := Some tc, navMesh := Some nm\<rparr>)"
    using assms(1,3,4,5) by (rule createTileCache_created)
  from assms(2) show ?thesis
    by (cases call) (simp_all add: addCylinderObstacle_def addBoxObstacle_def Let_def made)
qed

lemma pluginStep_created_by:
  assumes "tileCache p = None" and "tileCache (pluginStep lib call p) = Some tc"
  shows "isAddObstacleCall call \<and>
         (\<exists>ps is nm. positions p = Float32Array ps \<and> indices p = Float32Array is \<and>
            libGenerateTileCache lib ps is = (True, nm, tc) \<and>
            navMesh (pluginStep lib call p) = Some nm)"
proof (cases call)
  case (CreateNavMesh meshes completion)
  with assms show ?thesis
    by (auto simp: createNavMesh_def Let_def split: list.splits prod.splits if_splits)
next
  case (WorkerOnMessage data)
  with assms show ?thesis by (simp add: workerOnMessage_def buildFromNavmeshData_def Let_def)
next
  case (BuildFromNavmeshData data)
  with assms show ?thesis by (simp add: buildFromNavmeshData_def)
next
  case (AddCylinderObstacle position radius height)
  with assms have "tileCache (state_of (createTileCache (libGenerateTileCache lib) p)) = Some tc"
    by (auto simp: addCylinderObstacle_def Let_def split: outcome.splits)
  from createTileCache_only [OF assms(1) this] AddCylinderObstacle show ?thesis
    by (auto simp: addCylinderObstacle_def Let_def)
next
  case (AddBoxObstacle position extent angle)
  with assms have "tileCache (state_of (createTileCache (libGenerateTileCache lib) p)) = Some tc"
    by (auto simp: addBoxObstacle_def Let_def split: outcome.splits)
  from createTileCache_only [OF assms(1) this] AddBoxObstacle show ?thesis
    by (auto simp: addBoxObstacle_def Let_def)
next
  case (RemoveObstacle ob)
  with assms show ?thesis by (simp add: removeObstacle_def)
qed

lemma pluginStep_replaces_navMesh:
  "navMesh (pluginStep lib (BuildFromNavmeshData data) p) = Some (libImportNavMesh lib data)"
  "navMesh (pluginStep lib (WorkerOnMessage data) p) = Some (libImportNavMesh lib data)"
  "\<not> (worker p \<and> completion) \<Longrightarrow>
   libGenerateSoloNavMesh lib (Float32Array_from (libFround lib) (verticesData mesh0))
     (Float32Array_from (libFround lib) (meshIndices mesh0)) = (True, nm) \<Longrightarrow>
     navMesh (pluginStep lib (CreateNavMesh (mesh0 # others) completion) p) = Some nm"
  by (auto simp: buildFromNavmeshData_def workerOnMessage_def createNavMesh_def Let_def)

lemma obstacle_after_worker_build_throws:
  "threw (addCylinderObstacle (libGenerateTileCache exampleLib) (libAddCylinder exampleLib)
            \<lparr>vx = 5, vy = 0, vz = 5\<rparr> 1 2
            (pluginStep exampleLib (CreateNavMesh [quadMesh] True) workerPlugin)) \<and>
   tileCache (state_of
     (addCylinderObstacle (libGenerateTileCache exampleLib) (libAddCylinder exampleLib)
        \<lparr>vx = 5, vy = 0, vz = 5\<rparr> 1 2
        (pluginStep exampleLib (CreateNavMesh [quadMesh] True) workerPlugin))) = None"
  by (simp add: workerPlugin_def newPlugin_def exampleLib_def quadMesh_def createNavMesh_def
      Float32Array_from_def addCylinderObstacle_def createTileCache_def Let_def)

text \<open>
  Claim C9, as stated: whenever a tile cache exists, the mesh the plugin holds is the
  one built with the tile cache. It fails after a later import: the first obstacle
  creates tile cache 7 together with mesh 2, then \<^verbatim>\<open>buildFromNavmeshData\<close> makes the
  plugin hold mesh 3 while the tile cache stays.
\<close>

theorem tileCache_invariant_counterexample:
  "tileCache (pluginRun exampleLib (take 2 obstacleThenImport) newPlugin) = Some 7 \<and>
   navMesh (pluginRun exampleLib (take 2 obstacleThenImport) newPlugin) = Some 2 \<and>
   tileCache (pluginRun exampleLib obstacleThenImport newPlugin) = Some 7 \<and>
   navMesh (pluginRun exampleLib obstacleThenImport newPlugin) = Some 3"
  by (simp add: obstacleThenImport_def exampleLib_def newPlugin_def quadMesh_def
      createNavMesh_def Float32Array_from_def addCylinderObstacle_def createTileCache_def
      buildFromNavmeshData_def Let_def)

text \<open>
  Claim C9, amended. Without a tile cache, \<^verbatim>\<open>addCylinderObstacle\<close> or
  \<^verbatim>\<open>addBoxObstacle\<close> on retained geometry for which the generator succeeds creates the
  tile cache, and the plugin then holds the mesh generated with it; a call creates a
  tile cache in no other way. Once created, the tile cache is the same after any run
  of calls, and the held mesh is the same after any run of obstacle calls. A later
  \<^verbatim>\<open>buildFromNavmeshData\<close> or worker reply makes the plugin hold the imported mesh, and
  a later successful blocking \<^verbatim>\<open>createNavMesh\<close> the newly generated one, while the
  tile cache stays.
\<close>

theorem tileCache_created_once:
  "(tileCache p = None \<and> isAddObstacleCall call \<and>
    positions p = Float32Array vertices \<and> indices p = Float32Array triangles \<and>
    libGenerateTileCache lib vertices triangles = (True, nm, tc) \<longrightarrow>
      tileCache (pluginStep lib call p) = Some tc \<and>
      navMesh (pluginStep lib call p) = Some nm) \<and>
   (tileCache p = None \<and> tileCache (pluginStep lib call p) = Some tc \<longrightarrow>
      isAddObstacleCall call \<and>
      (\<exists>ps' is' nm'. positions p = Float32Array ps' \<and> indices p = Float32Array is' \<and>
         libGenerateTileCache lib ps' is' = (True, nm', tc) \<and>
         navMesh (pluginStep lib call p) = Some nm')) \<and>
   (tileCache p = Some tc \<longrightarrow>
      tileCache (pluginRun lib calls p) = Some tc \<and>
      (list_all isObstacleCall calls \<longrightarrow> navMesh (pluginRun lib calls p) = navMesh p) \<and>
      navMesh (pluginStep lib (BuildFromNavmeshData data) p) = Some (libImportNavMesh lib data) \<and>
      navMesh (pluginStep lib (WorkerOnMessage data) p) = Some (libImportNavMesh lib data) \<and>
      (\<not> (worker p \<and> completion) \<and>
       libGenerateSoloNavMesh lib (Float32Array_from (libFround lib) (verticesData mesh))
         (Float32Array_from (libFround lib) (meshIndices mesh)) = (True, built) \<longrightarrow>
         navMesh (pluginStep lib (CreateNavMesh (mesh # others) completion) p) = Some built))"
  using pluginStep_add_creates [of p call vertices triangles lib nm tc]
    pluginStep_created_by [of p lib call tc]
    pluginRun_keeps_tileCache [of p tc lib calls]
    pluginRun_obstacle_keeps_navMesh [of p tc calls lib]
    pluginStep_replaces_navMesh(1) [of lib data p]
    pluginStep_replaces_navMesh(2) [of lib data p]
    pluginStep_replaces_navMesh(3) [of p completion lib mesh built others]
  by blast

theorem tileCache_created_once_witness:
  "tileCache (pluginStep exampleLib
                (AddBoxObstacle \<lparr>vx = 5, vy = 0, vz = 5\<rparr> \<lparr>vx = 1, vy = 1, vz = 1\<rparr> 0)
                (pluginRun exampleLib (take 1 obstacleThenImport) newPlugin)) = Some 7 \<and>
   navMesh (pluginStep exampleLib
              (AddBoxObstacle \<lparr>vx = 5, vy = 0, vz = 5\<rparr> \<lparr>vx = 1, vy = 1, vz = 1\<rparr> 0)
              (pluginRun exampleLib (take 1 obstacleThenImport) newPlugin)) = Some 2 \<and>
   tileCache (pluginRun exampleLib [RemoveObstacle 0, BuildFromNavmeshData [0]]
                (pluginRun exampleLib (take 2 obstacleThenImport) newPlugin)) = Some 7 \<and>
   navMesh (pluginRun exampleLib [RemoveObstacle 0]
              (pluginRun exampleLib (take 2 obstacleThenImport) newPlugin)) = Some 2 \<and>
   navMesh (pluginStep exampleLib (BuildFromNavmeshData [0])
              (pluginRun exampleLib (take 2 obstacleThenImport) newPlugin)) = Some 3 \<and>
   navMesh (pluginStep exampleLib (WorkerOnMessage [0])
              (pluginRun exampleLib (take 2 obstacleThenImport) newPlugin)) = Some 3 \<and>
   navMesh (pluginStep exampleLib (CreateNavMesh [quadMesh] False)
              (pluginRun exampleLib (take 2 obstacleThenImport) newPlugin)) = Some 1"
proof -
  let ?p1 = "pluginRun exampleLib (take 1 obstacleThenImport) newPlugin"
  let ?p2 = "pluginRun exampleLib (take 2 obstacleThenImport) newPlugin"
  let ?box = "AddBoxObstacle \<lparr>vx = 5, vy = 0, vz = 5\<rparr> \<lparr>vx = 1, vy = 1, vz = 1\<rparr> 0"
  have before: "tileCache ?p1 = None"
    and ps: "positions ?p1 = Float32Array [0, 0, 0, 10, 0, 0, 10, 0, 10, 0, 0, 10]"
    and ixs: "indices ?p1 = Float32Array [0, 1, 2, 0, 2, 3]"
    and after: "tileCache ?p2 = Some 7"
    and held: "navMesh ?p2 = Some 2"
    and blocking: "\<not> (worker ?p2 \<and> False)"
    by (simp_all add: obstacleThenImport_def exampleLib_def newPlugin_def quadMesh_def
        createNavMesh_def Float32Array_from_def addCylinderObstacle_def createTileCache_def
        Let_def)
  have gen: "libGenerateTileCache exampleLib [0, 0, 0, 10, 0, 0, 10, 0, 10, 0, 0, 10]
               [0, 1, 2, 0, 2, 3] = (True, 2, 7)"
    and solo: "libGenerateSoloNavMesh exampleLib
                 (Float32Array_from (libFround exampleLib) (verticesData quadMesh))
                 (Float32Array_from (libFround exampleLib) (meshIndices quadMesh)) = (True, 1)"
    and imp: "libImportNavMesh exampleLib [0] = 3"
    by (simp_all add: exampleLib_def quadMesh_def Float32Array_from_def)
  have add: "isAddObstacleCall ?box" by simp
  have obs: "list_all isObstacleCall [RemoveObstacle 0]" by simp
  from tileCache_created_once
         [where p = ?p1 and lib = exampleLib and call = ?box and tc = 7 and nm = 2
            and vertices = "[0, 0, 0, 10, 0, 0, 10, 0, 10, 0, 0, 10]"
            and triangles = "[0, 1, 2, 0, 2, 3]"]
       before add ps ixs gen
  have first: "tileCache (pluginStep exampleLib ?box ?p1) = Some 7 \<and>
               navMesh (pluginStep exampleLib ?box ?p1) = Some 2"
    by blast
  from tileCache_created_once
         [where p = ?p2 and lib = exampleLib and tc = 7
            and calls = "[RemoveObstacle 0, BuildFromNavmeshData [0]]"] after
  have kept: "tileCache (pluginRun exampleLib [RemoveObstacle 0, BuildFromNavmeshData [0]] ?p2)
                = Some 7"
    by blast
  from tileCache_created_once
         [where p = ?p2 and lib = exampleLib and tc = 7 and calls = "[RemoveObstacle 0]"
            and data = "[0]" and completion = False and mesh = quadMesh and built = 1
            and others = "[]"]
       after obs blocking solo
  have later: "navMesh (pluginRun exampleLib [RemoveObstacle 0] ?p2) = navMesh ?p2 \<and>
               navMesh (pluginStep exampleLib (BuildFromNavmeshData [0]) ?p2)
                 = Some (libImportNavMesh exampleLib [0]) \<and>
               navMesh (pluginStep exampleLib (WorkerOnMessage [0]) ?p2)
                 = Some (libImportNavMesh exampleLib [0]) \<and>
               navMesh (pluginStep exampleLib (CreateNavMesh [quadMesh] False) ?p2) = Some 1"
    by blast
  from first kept later held imp show ?thesis by simp
qed

end
